theory Spec2Isabelle
  imports Complex_Main "HOL-Library.Multiset" "HOL-Library.Char_ord" "HOL-Library.List_Lexorder"
    "HOL-Library.Log_Nat"
begin

section \<open>Values, exceptions and library functions\<close>

text \<open>
  A raw record is a Python dict from field names to JSON scalars, as the remote store
  returns it. A Python float is identified with the rational number it denotes, so the
  values are the finite floats; the arithmetic on them is not exact and is not fixed here
  (see \<open>float_add\<close> below). Infinities and NaN are outside the model.
\<close>

datatype pyval = PNone | PBool bool | PNum rat | PStr string

datatype exn = KeyError | ValueError | TypeError | AttributeError | OverflowError

type_synonym raw_record = "string \<rightharpoonup> pyval"

record date =
  year :: int
  month :: int
  day :: int

text \<open>
  What the source takes from the Python library: \<^verbatim>\<open>float(x)\<close>, \<^verbatim>\<open>str(x)\<close>, \<^verbatim>\<open>int(s)\<close>,
  \<^verbatim>\<open>datetime.fromisoformat(s)\<close>, \<^verbatim>\<open>d.strftime("%Y-%m")\<close>, the string methods
  \<^verbatim>\<open>s.strip()\<close>, \<^verbatim>\<open>s.split()\<close> and \<^verbatim>\<open>s.split(maxsplit=2)\<close> (whose notion of whitespace is
  Unicode's), the addition and division of floats, which round, and the builtin \<^verbatim>\<open>sum\<close>.
  None of this is code of the repository, so every function below takes it as an argument
  and every theorem about all inputs holds for any behaviour of it. A raising call returns
  \<open>Inl\<close>.
\<close>

record builtins =
  py_float :: "pyval \<Rightarrow> exn + rat"
  py_str :: "pyval \<Rightarrow> string"
  py_int :: "string \<Rightarrow> exn + int"
  fromisoformat :: "string \<Rightarrow> exn + date"
  strftime_Ym :: "date \<Rightarrow> string"
  py_strip :: "string \<Rightarrow> string"
  py_split :: "string \<Rightarrow> string list"
  py_split2 :: "string \<Rightarrow> string list"
  float_add :: "rat \<Rightarrow> rat \<Rightarrow> rat"
  float_div :: "rat \<Rightarrow> rat \<Rightarrow> rat"
  py_sum :: "rat list \<Rightarrow> rat"

section \<open>ana.py: process_data\<close>

text \<open>Lines written to standard output by \<^verbatim>\<open>process_data\<close>.\<close>

datatype line =
    Warning_negative rat
  | Skipping exn
  | Debug_item raw_record
  | Debug_error exn

text \<open>
  \<^verbatim>\<open>category_totals\<close> and \<^verbatim>\<open>monthly_totals\<close> are \<^verbatim>\<open>defaultdict(float)\<close>: a dict keeps
  its keys in insertion order, so each is an association list with distinct keys.
  \<open>add_total add k a d\<close> is \<^verbatim>\<open>d[k] += a\<close> with the addition \<open>add\<close>: a missing key starts
  at \<open>0.0\<close> and goes to the end.
\<close>

type_synonym totals = "(string \<times> rat) list"

fun add_total :: "(rat \<Rightarrow> rat \<Rightarrow> rat) \<Rightarrow> string \<Rightarrow> rat \<Rightarrow> totals \<Rightarrow> totals" where
  "add_total add k a [] = [(k, add 0 a)]"
| "add_total add k a ((k', v) # kvs) =
     (if k = k' then (k', add v a) # kvs else (k', v) # add_total add k a kvs)"

record pd =
  dates :: "date list"
  amounts :: "rat list"
  categories :: "string list"
  category_totals :: totals
  monthly_totals :: totals
  stdout :: "line list"

definition pd_init :: pd where
  "pd_init = \<lparr>dates = [], amounts = [], categories = [], category_totals = [],
              monthly_totals = [], stdout = []\<rparr>"

text \<open>
  The body of the \<^verbatim>\<open>try\<close> block of the loop up to the appends: the checks and
  conversions of one record. It returns the lines printed and either the exception raised
  or the date, amount and category. The warning for a negative amount is printed before
  the timestamp is parsed, so it stays when the record is skipped later.
  \<^verbatim>\<open>item['time'].split('T')[0]\<close> is the text before the first \<open>T\<close>; a \<^verbatim>\<open>time\<close> that is not
  a string has no \<^verbatim>\<open>split\<close> (AttributeError).
\<close>

definition try_item :: "builtins \<Rightarrow> raw_record \<Rightarrow> line list \<times> (exn + date \<times> rat \<times> string)" where
  "try_item B item =
     (if \<not> (\<forall>k \<in> set [''amount'', ''time'', ''category'']. item k \<noteq> None)
      then ([], Inl KeyError)
      else case py_float B (the (item ''amount'')) of
        Inl e \<Rightarrow> ([], Inl e)
      | Inr amount \<Rightarrow>
          let warn = (if amount < 0 then [Warning_negative amount] else [])
          in case the (item ''time'') of
            PStr t \<Rightarrow>
              (case fromisoformat B (takeWhile (\<lambda>c. c \<noteq> CHR ''T'') t) of
                 Inl e \<Rightarrow> (warn, Inl e)
               | Inr d \<Rightarrow>
                   let category = py_strip B (py_str B (the (item ''category'')));
                       category = (if category = [] then ''Uncategorized'' else category)
                   in (warn, Inr (d, amount, category)))
          | _ \<Rightarrow> (warn, Inl AttributeError))"

text \<open>
  One iteration of the \<^verbatim>\<open>for item in all_data\<close> loop: the appends and the two
  \<^verbatim>\<open>+=\<close> when the record passes, the \<^verbatim>\<open>except Exception\<close> block otherwise; \<open>debug\<close> is
  the global \<^verbatim>\<open>DEBUG\<close>.
\<close>

definition process_item :: "builtins \<Rightarrow> bool \<Rightarrow> raw_record \<Rightarrow> pd \<Rightarrow> pd" where
  "process_item B debug item s =
     (case try_item B item of
        (warn, Inr (d, amount, category)) \<Rightarrow>
          s\<lparr>dates := dates s @ [d],
            amounts := amounts s @ [amount],
            categories := categories s @ [category],
            category_totals := add_total (float_add B) category amount (category_totals s),
            monthly_totals := add_total (float_add B) (strftime_Ym B d) amount (monthly_totals s),
            stdout := stdout s @ warn\<rparr>
      | (warn, Inl e) \<Rightarrow>
          s\<lparr>stdout := stdout s @ warn @
                (if debug then [Debug_item item, Debug_error e] else [Skipping e])\<rparr>)"

text \<open>The two \<^verbatim>\<open>ValueError\<close>s that \<^verbatim>\<open>process_data\<close> raises, by message.\<close>

datatype value_error = Invalid_or_empty_data | No_valid_data_points

type_synonym pd_result = "date list \<times> rat list \<times> string list \<times> totals \<times> totals"

text \<open>
  \<^verbatim>\<open>process_data\<close> returns what it printed and either the exception raised or the tuple
  of the five results.
\<close>

definition process_data ::
  "builtins \<Rightarrow> bool \<Rightarrow> raw_record list \<Rightarrow> line list \<times> (value_error + pd_result)" where
  "process_data B debug all_data =
     (if all_data = [] then ([], Inl Invalid_or_empty_data)
      else let s = foldl (\<lambda>s item. process_item B debug item s) pd_init all_data
           in if dates s = [] then (stdout s, Inl No_valid_data_points)
              else (stdout s, Inr (dates s, amounts s, categories s,
                                   category_totals s, monthly_totals s)))"

text \<open>
  What the claims call a record that validates: the \<^verbatim>\<open>try\<close> body runs to its end.
  Stated on the record alone, to be compared with \<open>process_item\<close>.
\<close>

definition validates :: "builtins \<Rightarrow> raw_record \<Rightarrow> bool" where
  "validates B item =
     (item ''category'' \<noteq> None \<and>
      (case item ''amount'' of
         None \<Rightarrow> False
       | Some a \<Rightarrow> \<not> isl (py_float B a)) \<and>
      (case item ''time'' of
         Some (PStr t) \<Rightarrow> \<not> isl (fromisoformat B (takeWhile (\<lambda>c. c \<noteq> CHR ''T'') t))
       | _ \<Rightarrow> False))"

definition category_of :: "builtins \<Rightarrow> raw_record \<Rightarrow> string" where
  "category_of B item =
     (let c = py_strip B (py_str B (the (item ''category'')))
      in if c = [] then ''Uncategorized'' else c)"


definition amount_of :: "builtins \<Rightarrow> raw_record \<Rightarrow> rat" where
  "amount_of B item =
     (case item ''amount'' of
        None \<Rightarrow> 0
      | Some a \<Rightarrow> (case py_float B a of Inl e \<Rightarrow> 0 | Inr r \<Rightarrow> r))"

section \<open>Top-K reduction of the category totals\<close>

text \<open>
  \<^verbatim>\<open>sorted(category_totals.items(), key=lambda x: x[1], reverse=True)\<close>: Python's sort is
  stable, also with \<^verbatim>\<open>reverse=True\<close>, so the result is the one permutation of the items that
  descends by total and keeps the items of equal total in their dict order. The stable
  insertion sort of the library on the negated total computes it.
\<close>

definition sorted_desc :: "totals \<Rightarrow> totals" where
  "sorted_desc items = sort_key (\<lambda>x. - snd x) items"


text \<open>The labels and sizes that \<^verbatim>\<open>send_category_chart\<close> (bot.py) computes.\<close>

definition category_chart :: "builtins \<Rightarrow> totals \<Rightarrow> string list \<times> rat list" where
  "category_chart B cat_totals =
     (let categories_sorted = sorted_desc cat_totals;
          labels = map fst (take 5 categories_sorted);
          sizes = map snd (take 5 categories_sorted)
      in if length categories_sorted > 5
         then let other_sum = py_sum B (map snd (drop 5 categories_sorted))
              in (labels @ [''Other''], sizes @ [other_sum])
         else (labels, sizes))"


section \<open>expense\_tracker.py: the remote store\<close>

text \<open>
  The remote table and the chat transport are services outside the repository. The rows
  that the inserts of this process add are kept in \<open>table\<close>; how each remote call ends
  (the row is stored or the call raises, what a select or the monthly-total procedure
  answers) is decided by the service and given by a \<open>services\<close> value. Every remote call is
  also recorded, in order, in \<open>calls\<close>. Sends are taken to succeed. What
  expense\_tracker.py and bot.py print to the console is left out; an exception raised
  while printing is not.
\<close>

datatype insert_outcome = Inserted | Insert_raises exn

record services =
  now :: string
  insert_execute :: "raw_record \<Rightarrow> insert_outcome"
  select_execute :: "raw_record list \<Rightarrow> exn + raw_record list"
  rpc_execute :: "raw_record list \<Rightarrow> int \<Rightarrow> int \<Rightarrow> exn + rat option"

datatype mode = waiting_for_expense | waiting_for_month

text \<open>The text of a message the bot sends, by kind, with the data it shows.\<close>

datatype reply =
    Unauthorized_access
  | Welcome_menu
  | Choose_option_menu
  | Add_expense_prompt
  | Monthly_summary_prompt
  | Analytics_menu
  | No_expenses_found
  | Recent_expenses "(date \<times> string \<times> rat \<times> string) list" rat
  | Generating_category_chart
  | Generating_monthly_trend
  | No_data_available
  | Error_generating_chart
  | Error_generating_statistics
  | Statistics rat rat rat rat nat string
  | Use_start
  | Invalid_format_expense
  | Expense_added string rat string
  | Invalid_amount
  | Error_reply exn
  | Invalid_format_month
  | Month_range
  | Month_total date rat
  | Invalid_year_or_month

datatype photo =
    Category_distribution "string list" "rat list"
  | Monthly_trend "string list" "rat list"

datatype call =
    Send_message int reply
  | Send_photo int photo
  | Answer_callback_query string
  | Store_insert raw_record
  | Store_select_all
  | Store_rpc_monthly_total int int

record world =
  user_data :: "int \<rightharpoonup> mode"
  calls :: "call list"
  table :: "raw_record list"

definition remote :: "call \<Rightarrow> world \<Rightarrow> world" where
  "remote c w = w\<lparr>calls := calls w @ [c]\<rparr>"

definition send_message :: "int \<Rightarrow> reply \<Rightarrow> world \<Rightarrow> world" where
  "send_message chat_id text w = remote (Send_message chat_id text) w"

definition send_photo :: "int \<Rightarrow> photo \<Rightarrow> world \<Rightarrow> world" where
  "send_photo chat_id ph w = remote (Send_photo chat_id ph) w"

definition answer_callback_query :: "string \<Rightarrow> world \<Rightarrow> world" where
  "answer_callback_query callback_query_id w = remote (Answer_callback_query callback_query_id) w"

text \<open>
  \<^verbatim>\<open>store_expense\<close>: \<^verbatim>\<open>not category or not amount\<close> holds for the empty string and for
  an amount of zero, and then nothing is inserted. Every exception of the insert is caught
  inside; the function returns nothing to its caller in every case.
\<close>

definition expense_data :: "builtins \<Rightarrow> services \<Rightarrow> string \<Rightarrow> rat \<Rightarrow> string \<Rightarrow> raw_record" where
  "expense_data B S category amount note =
     [''time'' \<mapsto> PStr (now S),
      ''category'' \<mapsto> PStr (py_strip B category),
      ''amount'' \<mapsto> PNum amount,
      ''note'' \<mapsto> PStr (if note \<noteq> [] then py_strip B note else [])]"

definition store_expense ::
  "builtins \<Rightarrow> services \<Rightarrow> string \<Rightarrow> rat \<Rightarrow> string \<Rightarrow> world \<Rightarrow> world" where
  "store_expense B S category amount note w =
     (if category = [] \<or> amount = 0 then w
      else let data = expense_data B S category amount note;
               w1 = remote (Store_insert data) w
           in case insert_execute S data of
                Inserted \<Rightarrow> w1\<lparr>table := table w1 @ [data]\<rparr>
              | Insert_raises e \<Rightarrow> w1)"

text \<open>
  \<^verbatim>\<open>fetch_all_expenses\<close> prints every row before it returns the rows, inside its
  \<^verbatim>\<open>try\<close>: the fields \<^verbatim>\<open>label\<close>, \<^verbatim>\<open>time\<close>, \<^verbatim>\<open>category\<close>, \<^verbatim>\<open>amount\<close> and \<^verbatim>\<open>note\<close> are
  read (a missing one raises \<^verbatim>\<open>KeyError\<close>) and the amount is formatted with two decimals,
  which raises for a string or \<^verbatim>\<open>None\<close> and works for a number or a boolean.
\<close>

definition printable :: "raw_record \<Rightarrow> bool" where
  "printable row =
     ((\<forall>k \<in> set [''label'', ''time'', ''category'', ''amount'', ''note'']. row k \<noteq> None) \<and>
      (case row ''amount'' of
         Some (PNum a) \<Rightarrow> True
       | Some (PBool b) \<Rightarrow> True
       | _ \<Rightarrow> False))"

text \<open>
  \<^verbatim>\<open>fetch_all_expenses\<close>: the rows, or \<^verbatim>\<open>None\<close> when the select or the printing of a row
  raises.
\<close>

definition fetch_all_expenses :: "services \<Rightarrow> world \<Rightarrow> raw_record list option \<times> world" where
  "fetch_all_expenses S w =
     (case select_execute S (table w) of
        Inl e \<Rightarrow> (None, remote Store_select_all w)
      | Inr rows \<Rightarrow>
          (if list_all printable rows then (Some rows, remote Store_select_all w)
           else (None, remote Store_select_all w)))"

text \<open>\<^verbatim>\<open>fetch_monthly_total\<close>: the total, or \<^verbatim>\<open>None\<close> when the call raises.\<close>

definition fetch_monthly_total :: "services \<Rightarrow> int \<Rightarrow> int \<Rightarrow> world \<Rightarrow> rat option \<times> world" where
  "fetch_monthly_total S y m w =
     (case rpc_execute S (table w) y m of
        Inl e \<Rightarrow> (None, remote (Store_rpc_monthly_total y m) w)
      | Inr tot \<Rightarrow> (tot, remote (Store_rpc_monthly_total y m) w))"

section \<open>bot.py: the conversation state store\<close>

definition AUTHORIZED_CHAT_ID :: int where
  "AUTHORIZED_CHAT_ID = 5515574299"

definition is_authorized :: "int \<Rightarrow> bool" where
  "is_authorized chat_id = (chat_id = AUTHORIZED_CHAT_ID)"

text \<open>
  The three operations the handlers perform on the dict \<^verbatim>\<open>user_data\<close>:
  \<^verbatim>\<open>user_data[chat_id] = {'state': m}\<close>, the lookup, and \<^verbatim>\<open>del user_data[chat_id]\<close>, which
  raises \<^verbatim>\<open>KeyError\<close> when the key is absent.
\<close>

definition user_data_set :: "int \<Rightarrow> mode \<Rightarrow> (int \<rightharpoonup> mode) \<Rightarrow> (int \<rightharpoonup> mode)" where
  "user_data_set chat_id m ud = ud(chat_id \<mapsto> m)"

definition user_data_get :: "int \<Rightarrow> (int \<rightharpoonup> mode) \<Rightarrow> mode option" where
  "user_data_get chat_id ud = ud chat_id"

definition user_data_del :: "int \<Rightarrow> (int \<rightharpoonup> mode) \<Rightarrow> exn + (int \<rightharpoonup> mode)" where
  "user_data_del chat_id ud =
     (if ud chat_id \<noteq> None then Inr (ud(chat_id := None)) else Inl KeyError)"

section \<open>bot.py: the handlers\<close>

definition handle_start :: "int \<Rightarrow> world \<Rightarrow> world" where
  "handle_start chat_id w = send_message chat_id Welcome_menu w"

text \<open>
  \<^verbatim>\<open>handle_expense_input\<close>. The caught exceptions are those of \<^verbatim>\<open>float\<close> and of the
  \<^verbatim>\<open>del\<close>; \<^verbatim>\<open>store_expense\<close> raises nothing.
\<close>

definition handle_expense_input :: "builtins \<Rightarrow> services \<Rightarrow> int \<Rightarrow> string \<Rightarrow> world \<Rightarrow> world" where
  "handle_expense_input B S chat_id txt w =
     (let parts = py_split2 B txt
      in if length parts < 2 then send_message chat_id Invalid_format_expense w
         else let category = parts ! 0
              in case py_float B (PStr (parts ! 1)) of
                   Inl e \<Rightarrow>
                     (if e = ValueError then send_message chat_id Invalid_amount w
                      else send_message chat_id (Error_reply e) w)
                 | Inr amount \<Rightarrow>
                     let note = (if length parts > 2 then parts ! 2 else []);
                         w1 = store_expense B S category amount note w;
                         w2 = send_message chat_id (Expense_added category amount note) w1
                     in case user_data_del chat_id (user_data w2) of
                          Inr ud \<Rightarrow> w2\<lparr>user_data := ud\<rparr>
                        | Inl e \<Rightarrow> send_message chat_id (Error_reply e) w2)"

text \<open>
  \<^verbatim>\<open>datetime(year, month, 1)\<close>: the year must fit a C int (OverflowError otherwise) and lie
  in 1..9999, the month in 1..12 (ValueError otherwise); day 1 exists in every month.
\<close>

definition datetime_first :: "int \<Rightarrow> int \<Rightarrow> exn + date" where
  "datetime_first y m =
     (if y < - (2 ^ 31) \<or> 2 ^ 31 \<le> y then Inl OverflowError
      else if y < 1 \<or> 9999 < y then Inl ValueError
      else if m < 1 \<or> 12 < m then Inl ValueError
      else Inr \<lparr>year = y, month = m, day = 1\<rparr>)"

text \<open>\<^verbatim>\<open>handle_month_input\<close>; the monthly total is fetched before the month name is built.\<close>

definition handle_month_input :: "builtins \<Rightarrow> services \<Rightarrow> int \<Rightarrow> string \<Rightarrow> world \<Rightarrow> world" where
  "handle_month_input B S chat_id txt w =
     (let parts = py_split B txt
      in if length parts \<noteq> 2 then send_message chat_id Invalid_format_month w
         else case py_int B (parts ! 0) of
           Inl e \<Rightarrow>
             (if e = ValueError then send_message chat_id Invalid_year_or_month w
              else send_message chat_id (Error_reply e) w)
         | Inr y \<Rightarrow>
             (case py_int B (parts ! 1) of
                Inl e \<Rightarrow>
                  (if e = ValueError then send_message chat_id Invalid_year_or_month w
                   else send_message chat_id (Error_reply e) w)
              | Inr m \<Rightarrow>
                  if \<not> (1 \<le> m \<and> m \<le> 12) then send_message chat_id Month_range w
                  else let (tot, w1) = fetch_monthly_total S y m w
                       in case datetime_first y m of
                            Inl e \<Rightarrow>
                              (if e = ValueError then send_message chat_id Invalid_year_or_month w1
                               else send_message chat_id (Error_reply e) w1)
                          | Inr month_name \<Rightarrow>
                              let w2 = send_message chat_id
                                         (Month_total month_name (case tot of None \<Rightarrow> 0 | Some t \<Rightarrow> t)) w1
                              in case user_data_del chat_id (user_data w2) of
                                   Inr ud \<Rightarrow> w2\<lparr>user_data := ud\<rparr>
                                 | Inl e \<Rightarrow> send_message chat_id (Error_reply e) w2))"

definition handle_text_message :: "builtins \<Rightarrow> services \<Rightarrow> int \<Rightarrow> string \<Rightarrow> world \<Rightarrow> world" where
  "handle_text_message B S chat_id txt w =
     (if \<not> is_authorized chat_id then send_message chat_id Unauthorized_access w
      else case user_data_get chat_id (user_data w) of
        Some st \<Rightarrow>
          (case st of
             waiting_for_expense \<Rightarrow> handle_expense_input B S chat_id txt w
           | waiting_for_month \<Rightarrow> handle_month_input B S chat_id txt w)
      | None \<Rightarrow> send_message chat_id Use_start w)"

text \<open>Python's truth value of a JSON scalar.\<close>

fun truthy :: "pyval \<Rightarrow> bool" where
  "truthy PNone = False"
| "truthy (PBool b) = b"
| "truthy (PNum r) = (r \<noteq> 0)"
| "truthy (PStr s) = (s \<noteq> [])"

text \<open>
  One row of \<^verbatim>\<open>show_all_expenses\<close>: the fields are read in the order time, category,
  amount, note; a missing field raises \<^verbatim>\<open>KeyError\<close>, and nothing there is caught.
\<close>

definition show_expense :: "builtins \<Rightarrow> raw_record \<Rightarrow> exn + (date \<times> string \<times> rat \<times> string)" where
  "show_expense B expense =
     (case expense ''time'' of
        None \<Rightarrow> Inl KeyError
      | Some (PStr t) \<Rightarrow>
          (case fromisoformat B (takeWhile (\<lambda>c. c \<noteq> CHR ''T'') t) of
             Inl e \<Rightarrow> Inl e
           | Inr d \<Rightarrow>
               (case expense ''category'' of
                  None \<Rightarrow> Inl KeyError
                | Some c \<Rightarrow>
                    (case expense ''amount'' of
                       None \<Rightarrow> Inl KeyError
                     | Some (PNum a) \<Rightarrow>
                         (case expense ''note'' of
                            None \<Rightarrow> Inl KeyError
                          | Some n \<Rightarrow> Inr (d, py_str B c, a,
                                            (if truthy n then py_str B n else [])))
                     | Some (PBool b) \<Rightarrow>
                         (case expense ''note'' of
                            None \<Rightarrow> Inl KeyError
                          | Some n \<Rightarrow> Inr (d, py_str B c, (if b then 1 else 0),
                                            (if truthy n then py_str B n else [])))
                     | Some PNone \<Rightarrow> Inl TypeError
                     | Some (PStr x) \<Rightarrow> Inl ValueError)))
      | Some _ \<Rightarrow> Inl AttributeError)"

fun show_expenses :: "builtins \<Rightarrow> raw_record list \<Rightarrow> exn + (date \<times> string \<times> rat \<times> string) list" where
  "show_expenses B [] = Inr []"
| "show_expenses B (x # xs) =
     (case show_expense B x of
        Inl e \<Rightarrow> Inl e
      | Inr r \<Rightarrow> (case show_expenses B xs of Inl e \<Rightarrow> Inl e | Inr rs \<Rightarrow> Inr (r # rs)))"

text \<open>
  A handler that can let an exception escape returns it beside the world it leaves.
\<close>

definition show_all_expenses :: "builtins \<Rightarrow> services \<Rightarrow> int \<Rightarrow> world \<Rightarrow> exn option \<times> world" where
  "show_all_expenses B S chat_id w =
     (let (expenses, w1) = fetch_all_expenses S w
      in case expenses of
           None \<Rightarrow> (None, send_message chat_id No_expenses_found w1)
         | Some [] \<Rightarrow> (None, send_message chat_id No_expenses_found w1)
         | Some rows \<Rightarrow>
             (case show_expenses B (take 10 rows) of
                Inl e \<Rightarrow> (Some e, w1)
              | Inr shown \<Rightarrow>
                  (None, send_message chat_id
                           (Recent_expenses shown
                              (foldl (float_add B) 0 (map (\<lambda>(d, c, a, n). a) shown))) w1)))"

definition show_analytics_menu :: "int \<Rightarrow> world \<Rightarrow> world" where
  "show_analytics_menu chat_id w = send_message chat_id Analytics_menu w"

text \<open>
  The chart handlers. Drawing and encoding the image belong to the plotting backend and
  are taken to succeed; the photo sent is identified with the series drawn. The global
  \<^verbatim>\<open>DEBUG\<close> of ana.py is \<^verbatim>\<open>False\<close> in the bot's process.
\<close>

definition send_category_chart :: "builtins \<Rightarrow> services \<Rightarrow> int \<Rightarrow> world \<Rightarrow> world" where
  "send_category_chart B S chat_id w =
     (let w1 = send_message chat_id Generating_category_chart w;
          (all_data, w2) = fetch_all_expenses S w1
      in case all_data of
           None \<Rightarrow> send_message chat_id No_data_available w2
         | Some [] \<Rightarrow> send_message chat_id No_data_available w2
         | Some rows \<Rightarrow>
             (case snd (process_data B False rows) of
                Inl e \<Rightarrow> send_message chat_id Error_generating_chart w2
              | Inr (ds, ams, cs, cat_totals, mon_totals) \<Rightarrow>
                  let (labels, sizes) = category_chart B cat_totals
                  in send_photo chat_id (Category_distribution labels sizes) w2))"

definition send_monthly_chart :: "builtins \<Rightarrow> services \<Rightarrow> int \<Rightarrow> world \<Rightarrow> world" where
  "send_monthly_chart B S chat_id w =
     (let w1 = send_message chat_id Generating_monthly_trend w;
          (all_data, w2) = fetch_all_expenses S w1
      in case all_data of
           None \<Rightarrow> send_message chat_id No_data_available w2
         | Some [] \<Rightarrow> send_message chat_id No_data_available w2
         | Some rows \<Rightarrow>
             (case snd (process_data B False rows) of
                Inl e \<Rightarrow> send_message chat_id Error_generating_chart w2
              | Inr (ds, ams, cs, cat_totals, mon_totals) \<Rightarrow>
                  let months = sort (map fst mon_totals);
                      vals = map (\<lambda>m. case map_of mon_totals m of Some v \<Rightarrow> v | None \<Rightarrow> 0) months
                  in send_photo chat_id (Monthly_trend months vals) w2))"

text \<open>\<^verbatim>\<open>max(category_totals.items(), key=lambda x: x[1])\<close>: the first item of maximal total.\<close>

fun first_max :: "(string \<times> rat) \<Rightarrow> totals \<Rightarrow> string \<times> rat" where
  "first_max best [] = best"
| "first_max best (x # xs) = first_max (if snd best < snd x then x else best) xs"

definition send_statistics :: "builtins \<Rightarrow> services \<Rightarrow> int \<Rightarrow> world \<Rightarrow> world" where
  "send_statistics B S chat_id w =
     (let (all_data, w1) = fetch_all_expenses S w
      in case all_data of
           None \<Rightarrow> send_message chat_id No_data_available w1
         | Some [] \<Rightarrow> send_message chat_id No_data_available w1
         | Some rows \<Rightarrow>
             (case snd (process_data B False rows) of
                Inl e \<Rightarrow> send_message chat_id Error_generating_statistics w1
              | Inr (ds, ams, cs, cat_totals, mon_totals) \<Rightarrow>
                  (case (ams, cat_totals) of
                     (a # as, c # ct) \<Rightarrow>
                       send_message chat_id
                         (Statistics (py_sum B ams) (float_div B (py_sum B ams) (of_nat (length ams)))
                            (fold max as a) (fold min as a) (length ams)
                            (fst (first_max c ct))) w1
                   | _ \<Rightarrow> send_message chat_id Error_generating_statistics w1)))"

text \<open>
  \<^verbatim>\<open>handle_callback_query\<close>: the callback is answered first, then the chat is checked,
  then the action tag is routed; an unknown tag does nothing more.
\<close>

definition handle_callback_query ::
  "builtins \<Rightarrow> services \<Rightarrow> string \<Rightarrow> int \<Rightarrow> string \<Rightarrow> world \<Rightarrow> exn option \<times> world" where
  "handle_callback_query B S callback_query_id chat_id data w =
     (let w1 = answer_callback_query callback_query_id w
      in if \<not> is_authorized chat_id then (None, send_message chat_id Unauthorized_access w1)
         else if data = ''add_expense''
           then (None, send_message chat_id Add_expense_prompt
                         (w1\<lparr>user_data := user_data_set chat_id waiting_for_expense (user_data w1)\<rparr>))
         else if data = ''view_expenses'' then show_all_expenses B S chat_id w1
         else if data = ''monthly_summary''
           then (None, send_message chat_id Monthly_summary_prompt
                         (w1\<lparr>user_data := user_data_set chat_id waiting_for_month (user_data w1)\<rparr>))
         else if data = ''analytics'' then (None, show_analytics_menu chat_id w1)
         else if data = ''ana_category'' then (None, send_category_chart B S chat_id w1)
         else if data = ''ana_monthly'' then (None, send_monthly_chart B S chat_id w1)
         else if data = ''ana_stats'' then (None, send_statistics B S chat_id w1)
         else if data = ''back_menu'' then (None, send_message chat_id Choose_option_menu w1)
         else (None, w1))"

section \<open>bot.py: the main loop\<close>

text \<open>
  An update as the loop reads it: a message with its chat and, when present, its text; a
  callback query with its identifier, chat and data; or anything else, which is passed over.
\<close>

datatype update_body =
    Message int "string option"
  | Callback_query string int string
  | Other_update

record update =
  update_id :: int
  body :: update_body

text \<open>The body of the \<^verbatim>\<open>for update in updates\<close> loop after the cursor assignment.\<close>

definition handle_update :: "builtins \<Rightarrow> services \<Rightarrow> update \<Rightarrow> world \<Rightarrow> exn option \<times> world" where
  "handle_update B S u w =
     (case body u of
        Message chat_id None \<Rightarrow> (None, w)
      | Message chat_id (Some txt) \<Rightarrow>
          (if txt = ''/start'' then (None, handle_start chat_id w)
           else (None, handle_text_message B S chat_id txt w))
      | Callback_query callback_query_id chat_id data \<Rightarrow>
          handle_callback_query B S callback_query_id chat_id data w
      | Other_update \<Rightarrow> (None, w))"

text \<open>
  The state of \<^verbatim>\<open>main\<close>: the cursor \<^verbatim>\<open>last_update_id\<close> and the world. \<open>handled\<close> is a
  history variable, not a variable of the program: the identifiers of the updates on which
  the body of the for loop has been entered, in that order.
\<close>

record loop =
  last_update_id :: "int option"
  world_of :: world
  handled :: "int list"

definition loop_init :: "world \<Rightarrow> loop" where
  "loop_init w = \<lparr>last_update_id = None, world_of = w, handled = []\<rparr>"

text \<open>
  The for loop over one batch, with the exception that ends it, if any. The cursor is
  assigned before the update is handled. An exception that escapes a handler ends the for
  loop (it is caught by the \<^verbatim>\<open>except\<close> of the while loop); besides the exceptions of
  \<open>handle_update\<close> this can be any failure of a send, after which the world is whatever the
  handler had done up to there (rule \<open>interrupted\<close>). The services may answer differently
  at each update.
\<close>

inductive for_updates ::
  "builtins \<Rightarrow> update list \<Rightarrow> loop \<Rightarrow> exn option \<Rightarrow> loop \<Rightarrow> bool" for B where
  no_more: "for_updates B [] l None l"
| next_update:
    "handle_update B S u (world_of l) = (None, w') \<Longrightarrow>
     for_updates B us
       (l\<lparr>last_update_id := Some (update_id u + 1), world_of := w',
          handled := handled l @ [update_id u]\<rparr>) r l' \<Longrightarrow>
     for_updates B (u # us) l r l'"
| raised:
    "handle_update B S u (world_of l) = (Some e, w') \<Longrightarrow>
     for_updates B (u # us) l (Some e)
       (l\<lparr>last_update_id := Some (update_id u + 1), world_of := w',
          handled := handled l @ [update_id u]\<rparr>)"
| interrupted:
    "for_updates B (u # us) l (Some e)
       (l\<lparr>last_update_id := Some (update_id u + 1), world_of := w',
          handled := handled l @ [update_id u]\<rparr>)"

text \<open>
  What the transport answers to \<^verbatim>\<open>get_updates(offset)\<close>, by its contract: the pending
  updates in ascending order of identifier, the offset being the identifier of the first
  update to return: none below the offset when one is given.
\<close>

definition answers :: "int option \<Rightarrow> update list \<Rightarrow> bool" where
  "answers offset us =
     ((case offset of None \<Rightarrow> True | Some c \<Rightarrow> list_all (\<lambda>u. c \<le> update_id u) us) \<and>
      sorted_wrt (<) (map update_id us))"

text \<open>
  One turn of the \<^verbatim>\<open>while True\<close> loop, from one fetch to the next, with what happened in
  it: the fetch raises, or its result is not ok, and nothing changes; or the batch \<open>us\<close>
  arrives and the for loop runs over it, to its end or to an exception.
\<close>

datatype turn = Fetch_raised exn | Not_ok | Batch "update list" "exn option"

inductive step :: "builtins \<Rightarrow> loop \<Rightarrow> turn \<Rightarrow> loop \<Rightarrow> bool" for B where
  fetch_raised: "step B l (Fetch_raised e) l"
| not_ok: "step B l Not_ok l"
| batch:
    "answers (last_update_id l) us \<Longrightarrow> for_updates B us l r l' \<Longrightarrow> step B l (Batch us r) l'"

text \<open>A run of the loop: the turns taken, in order, from one state to another.\<close>

inductive run :: "builtins \<Rightarrow> loop \<Rightarrow> turn list \<Rightarrow> loop \<Rightarrow> bool" for B where
  run_start: "run B l [] l"
| run_turn: "run B l ts l' \<Longrightarrow> step B l' t l'' \<Longrightarrow> run B l (ts @ [t]) l''"

section \<open>Notions the claims use\<close>

text \<open>
  When the handlers count an input as handled: the expense entry has at least two parts
  and a second part that \<^verbatim>\<open>float\<close> accepts; the month query has exactly two parts that
  \<^verbatim>\<open>int\<close> accepts, a month in 1..12 and a year for which \<^verbatim>\<open>datetime\<close> builds the date.
\<close>

definition expense_parses :: "builtins \<Rightarrow> string \<Rightarrow> bool" where
  "expense_parses B txt =
     (2 \<le> length (py_split2 B txt) \<and> \<not> isl (py_float B (PStr (py_split2 B txt ! 1))))"

definition month_query_ok :: "builtins \<Rightarrow> string \<Rightarrow> bool" where
  "month_query_ok B txt =
     (length (py_split B txt) = 2 \<and>
      (case py_int B (py_split B txt ! 0) of
         Inl e \<Rightarrow> False
       | Inr y \<Rightarrow>
           (case py_int B (py_split B txt ! 1) of
              Inl e \<Rightarrow> False
            | Inr m \<Rightarrow> 1 \<le> m \<and> m \<le> 12 \<and> \<not> isl (datetime_first y m))))"


text \<open>
  Grouping a sequence of keyed amounts: the keys in the order of their first occurrence,
  each with the amounts under it added up from \<open>0.0\<close> in their order of occurrence.
\<close>

definition first_seen :: "string list \<Rightarrow> string list" where
  "first_seen ks = rev (remdups (rev ks))"




fun is_send :: "call \<Rightarrow> bool" where
  "is_send (Send_message c r) = True"
| "is_send (Send_photo c p) = True"
| "is_send _ = False"

fun is_store_call :: "call \<Rightarrow> bool" where
  "is_store_call (Store_insert r) = True"
| "is_store_call Store_select_all = True"
| "is_store_call (Store_rpc_monthly_total y m) = True"
| "is_store_call _ = False"

text \<open>
  The cursor discipline of the main loop, on the history of the updates entered: their
  identifiers ascend strictly, and the cursor is unset while none has been entered and is
  the last identifier plus one afterwards.
\<close>

definition cursor_inv :: "loop \<Rightarrow> bool" where
  "cursor_inv l =
     (sorted_wrt (<) (handled l) \<and>
      last_update_id l = (if handled l = [] then None else Some (last (handled l) + 1)))"

text \<open>Services that answer without failing, and services whose insert raises.\<close>

definition quiet :: services where
  "quiet = \<lparr>now = ''2025-10-01T10:00:00'',
            insert_execute = (\<lambda>row. Inserted),
            select_execute = (\<lambda>rows. Inr rows),
            rpc_execute = (\<lambda>rows y m. Inr None)\<rparr>"

definition failing :: services where
  "failing = \<lparr>now = ''2025-10-01T10:00:00'',
              insert_execute = (\<lambda>row. Insert_raises OverflowError),
              select_execute = (\<lambda>rows. Inl OverflowError),
              rpc_execute = (\<lambda>rows y m. Inl OverflowError)\<rparr>"

definition pending :: "mode \<Rightarrow> world" where
  "pending st = \<lparr>user_data = [AUTHORIZED_CHAT_ID \<mapsto> st], calls = [], table = []\<rparr>"

section \<open>A concrete instance of the builtins\<close>

text \<open>
  For the evaluations at concrete inputs. Characters are code points below 256, of which
  Python counts as whitespace 9 to 13, 28 to 32, 133 and 160. Numerals are plain decimals
  (an optional sign, digits, an optional fraction), dates are written \<^verbatim>\<open>YYYY-MM-DD\<close>, the
  year-month key has four and two digits. Float arithmetic is that of binary64: the exact
  result rounded to 53 significant bits, ties to even (without overflow or underflow), and
  \<^verbatim>\<open>sum\<close> adds from the left. No theorem about all inputs depends on this instance.
\<close>

definition isspace :: "char \<Rightarrow> bool" where
  "isspace c = (c \<in> set [CHR 0x09, CHR 0x0A, CHR 0x0B, CHR 0x0C, CHR 0x0D,
                           CHR 0x1C, CHR 0x1D, CHR 0x1E, CHR 0x1F, CHR 0x20,
                           CHR 0x85, CHR 0xA0])"

definition strip :: "string \<Rightarrow> string" where
  "strip s = rev (dropWhile isspace (rev (dropWhile isspace s)))"

text \<open>
  \<^verbatim>\<open>text.split(maxsplit=2)\<close>: at most two splits at runs of whitespace; the third part is
  the rest from its first non-space character to the end of the text.
\<close>

definition split_maxsplit2 :: "string \<Rightarrow> string list" where
  "split_maxsplit2 txt =
     (let t0 = dropWhile isspace txt
      in if t0 = [] then []
         else let p0 = takeWhile (\<lambda>c. \<not> isspace c) t0;
                  t1 = dropWhile isspace (dropWhile (\<lambda>c. \<not> isspace c) t0)
              in if t1 = [] then [p0]
                 else let p1 = takeWhile (\<lambda>c. \<not> isspace c) t1;
                          t2 = dropWhile isspace (dropWhile (\<lambda>c. \<not> isspace c) t1)
                      in if t2 = [] then [p0, p1] else [p0, p1, t2])"

text \<open>\<^verbatim>\<open>text.split()\<close>: the maximal runs of non-space characters; \<open>cur\<close> is the run so far.\<close>

fun split_acc :: "string \<Rightarrow> string \<Rightarrow> string list" where
  "split_acc [] cur = (if cur = [] then [] else [cur])"
| "split_acc (c # cs) cur =
     (if isspace c then (if cur = [] then split_acc cs [] else cur # split_acc cs [])
      else split_acc cs (cur @ [c]))"

definition split :: "string \<Rightarrow> string list" where
  "split txt = split_acc txt []"

text \<open>Rounding to binary64: the nearest number with 53 significant bits, ties to even.\<close>

definition pow2 :: "int \<Rightarrow> rat" where
  "pow2 e = (if 0 \<le> e then 2 ^ nat e else 1 / 2 ^ nat (- e))"

definition round_half_even :: "rat \<Rightarrow> int" where
  "round_half_even q =
     (let f = \<lfloor>q\<rfloor>; d = q - of_int f
      in if d < 1 / 2 then f else if 1 / 2 < d then f + 1 else if even f then f else f + 1)"

text \<open>The exponent \<open>e\<close> with \<open>2\<^sup>e \<le> \<bar>r\<bar> < 2\<^sup>e\<^sup>+\<^sup>1\<close>, for \<open>r \<noteq> 0\<close>.\<close>

definition binade :: "rat \<Rightarrow> int" where
  "binade r =
     (let (p, q) = quotient_of \<bar>r\<bar>;
          e0 = bitlen p - bitlen q
      in if pow2 e0 \<le> \<bar>r\<bar> then e0 else e0 - 1)"

definition round53 :: "rat \<Rightarrow> rat" where
  "round53 r =
     (if r = 0 then 0
      else let s = pow2 (binade r - 52) in of_int (round_half_even (r / s)) * s)"

definition plain_add :: "rat \<Rightarrow> rat \<Rightarrow> rat" where
  "plain_add x y = round53 (x + y)"

definition plain_div :: "rat \<Rightarrow> rat \<Rightarrow> rat" where
  "plain_div x y = round53 (x / y)"

definition plain_sum :: "rat list \<Rightarrow> rat" where
  "plain_sum xs = foldl plain_add 0 xs"

definition digit_of :: "char \<Rightarrow> nat option" where
  "digit_of c = (if 48 \<le> (of_char c :: nat) \<and> (of_char c :: nat) \<le> 57
                 then Some (of_char c - 48) else None)"

fun digits_value :: "string \<Rightarrow> nat \<Rightarrow> nat option" where
  "digits_value [] n = Some n"
| "digits_value (c # cs) n =
     (case digit_of c of None \<Rightarrow> None | Some d \<Rightarrow> digits_value cs (10 * n + d))"

definition plain_nat :: "string \<Rightarrow> nat option" where
  "plain_nat s = (if s = [] then None else digits_value s 0)"

definition plain_int :: "string \<Rightarrow> exn + int" where
  "plain_int s =
     (let t = strip s;
          (neg, u) = (case t of
                        c # r \<Rightarrow> if c = CHR ''-'' then (True, r)
                                 else if c = CHR ''+'' then (False, r) else (False, t)
                      | [] \<Rightarrow> (False, t))
      in case plain_nat u of
           None \<Rightarrow> Inl ValueError
         | Some n \<Rightarrow> Inr (if neg then - int n else int n))"

definition plain_decimal :: "string \<Rightarrow> exn + rat" where
  "plain_decimal s =
     (let t = strip s;
          (neg, u) = (case t of
                        c # r \<Rightarrow> if c = CHR ''-'' then (True, r)
                                 else if c = CHR ''+'' then (False, r) else (False, t)
                      | [] \<Rightarrow> (False, t));
          ip = takeWhile (\<lambda>c. c \<noteq> CHR ''.'') u;
          fp = drop 1 (dropWhile (\<lambda>c. c \<noteq> CHR ''.'') u)
      in if ip = [] \<and> fp = [] then Inl ValueError
         else case (digits_value ip 0, digits_value fp 0) of
                (Some i, Some f) \<Rightarrow>
                  Inr ((if neg then - 1 else 1) * (of_nat i + of_nat f / 10 ^ length fp))
              | _ \<Rightarrow> Inl ValueError)"

fun plain_float :: "pyval \<Rightarrow> exn + rat" where
  "plain_float PNone = Inl TypeError"
| "plain_float (PBool b) = Inr (if b then 1 else 0)"
| "plain_float (PNum r) = Inr r"
| "plain_float (PStr s) = (case plain_decimal s of Inl e \<Rightarrow> Inl e | Inr r \<Rightarrow> Inr (round53 r))"

definition two_digits :: "nat \<Rightarrow> string" where
  "two_digits n = [''0123456789'' ! (n div 10 mod 10), ''0123456789'' ! (n mod 10)]"

definition four_digits :: "nat \<Rightarrow> string" where
  "four_digits n = two_digits (n div 100) @ two_digits (n mod 100)"

fun plain_str :: "pyval \<Rightarrow> string" where
  "plain_str PNone = ''None''"
| "plain_str (PBool b) = (if b then ''True'' else ''False'')"
| "plain_str (PNum r) =
     (let n = nat \<lfloor>\<bar>r\<bar>\<rfloor>;
          ds = dropWhile (\<lambda>c. c = CHR ''0'') (four_digits (n div 10000) @ four_digits (n mod 10000))
      in (if r < 0 then ''-'' else []) @ (if ds = [] then ''0'' else ds))"
| "plain_str (PStr s) = s"

definition days_in_month :: "int \<Rightarrow> int \<Rightarrow> int" where
  "days_in_month y m =
     (if m = 2 then (if y mod 4 = 0 \<and> (y mod 100 \<noteq> 0 \<or> y mod 400 = 0) then 29 else 28)
      else if m \<in> set [4, 6, 9, 11] then 30 else 31)"

definition plain_fromisoformat :: "string \<Rightarrow> exn + date" where
  "plain_fromisoformat s =
     (if length s \<noteq> 10 \<or> s ! 4 \<noteq> CHR ''-'' \<or> s ! 7 \<noteq> CHR ''-'' then Inl ValueError
      else case (plain_nat (take 4 s), plain_nat (take 2 (drop 5 s)), plain_nat (drop 8 s)) of
             (Some y, Some m, Some d) \<Rightarrow>
               if 1 \<le> y \<and> 1 \<le> m \<and> m \<le> 12 \<and> 1 \<le> d \<and> int d \<le> days_in_month (int y) (int m)
               then Inr \<lparr>year = int y, month = int m, day = int d\<rparr>
               else Inl ValueError
           | _ \<Rightarrow> Inl ValueError)"

definition plain_strftime_Ym :: "date \<Rightarrow> string" where
  "plain_strftime_Ym d = four_digits (nat (year d)) @ ''-'' @ two_digits (nat (month d))"

definition plain :: builtins where
  "plain = \<lparr>py_float = plain_float, py_str = plain_str, py_int = plain_int,
            fromisoformat = plain_fromisoformat, strftime_Ym = plain_strftime_Ym,
            py_strip = strip, py_split = split, py_split2 = split_maxsplit2,
            float_add = plain_add, float_div = plain_div, py_sum = plain_sum\<rparr>"

text \<open>Sample records: the two of the specification's scenario A, and one with no amount.\<close>

definition food_record :: raw_record where
  "food_record = [''time'' \<mapsto> PStr ''2025-10-01T10:00'', ''category'' \<mapsto> PStr ''Food'',
                  ''amount'' \<mapsto> PStr ''250'']"


definition no_amount_record :: raw_record where
  "no_amount_record = [''time'' \<mapsto> PStr ''2025-10-03'', ''category'' \<mapsto> PStr ''Rent'']"







section \<open>Theorems\<close>

subsection \<open>The loop of process_data\<close>

lemma required_fields:
  "(\<forall>k \<in> set [''amount'', ''time'', ''category'']. item k \<noteq> None) =
   (item ''amount'' \<noteq> None \<and> item ''time'' \<noteq> None \<and> item ''category'' \<noteq> None)"
  by simp

lemma validates_iff: "validates B item = (\<not> isl (snd (try_item B item)))"
  unfolding validates_def try_item_def required_fields
  by (simp add: Let_def split: option.split sum.split pyval.split)



lemma process_item_valid:
  "try_item B item = (w, Inr (d, a, c)) \<Longrightarrow>
   process_item B debug item s =
     s\<lparr>dates := dates s @ [d], amounts := amounts s @ [a], categories := categories s @ [c],
       category_totals := add_total (float_add B) c a (category_totals s),
       monthly_totals := add_total (float_add B) (strftime_Ym B d) a (monthly_totals s),
       stdout := stdout s @ w\<rparr>"
  by (simp add: process_item_def)

lemma process_item_invalid:
  "try_item B item = (w, Inl e) \<Longrightarrow>
   process_item B debug item s =
     s\<lparr>stdout := stdout s @ w @ (if debug then [Debug_item item, Debug_error e] else [Skipping e])\<rparr>"
  by (simp add: process_item_def)

lemma try_item_cases:
  obtains (valid) w d a c where "try_item B item = (w, Inr (d, a, c))" "validates B item"
  | (invalid) w e where "try_item B item = (w, Inl e)" "\<not> validates B item"
proof (cases "try_item B item")
  case (Pair w r)
  show ?thesis
  proof (cases r)
    case (Inl e)
    with Pair invalid show ?thesis by (simp add: validates_iff)
  next
    case (Inr t)
    obtain d a c where "t = (d, a, c)" by (cases t)
    with Pair Inr valid show ?thesis by (simp add: validates_iff)
  qed
qed


lemma lengths_process_item:
  "length (dates (process_item B debug item s)) = length (dates s) + (if validates B item then 1 else 0)"
  "length (amounts (process_item B debug item s)) = length (amounts s) + (if validates B item then 1 else 0)"
  by (cases B item rule: try_item_cases; simp add: process_item_valid process_item_invalid)+



lemma lengths_loop:
  "length (dates (foldl (\<lambda>s item. process_item B debug item s) s xs)) = length (dates s) + length (filter (validates B) xs)"
  "length (amounts (foldl (\<lambda>s item. process_item B debug item s) s xs)) = length (amounts s) + length (filter (validates B) xs)"
  by (induction xs arbitrary: s; simp add: lengths_process_item)+










lemma dates_empty_iff:
  "dates (foldl (\<lambda>s item. process_item B debug item s) pd_init xs) = [] \<longleftrightarrow>
     filter (validates B) xs = []"
proof -
  have "length (dates (foldl (\<lambda>s item. process_item B debug item s) pd_init xs)) =
        length (filter (validates B) xs)"
    using lengths_loop(1)[of B debug pd_init xs] by (simp add: pd_init_def)
  then show ?thesis by (metis length_0_conv)
qed

lemma process_data_Inr:
  "snd (process_data B debug xs) = Inr (ds, ams, cs, ct, mt) \<longleftrightarrow>
     filter (validates B) xs \<noteq> [] \<and>
     (let s = foldl (\<lambda>s item. process_item B debug item s) pd_init xs
      in ds = dates s \<and> ams = amounts s \<and> cs = categories s \<and>
         ct = category_totals s \<and> mt = monthly_totals s)"
  using dates_empty_iff[of B debug xs]
  by (cases "xs = []") (auto simp: process_data_def Let_def)

lemma process_data_Inl:
  "snd (process_data B debug xs) = Inl e \<longleftrightarrow>
     filter (validates B) xs = [] \<and>
     e = (if xs = [] then Invalid_or_empty_data else No_valid_data_points)"
  using dates_empty_iff[of B debug xs]
  by (cases "xs = []") (auto simp: process_data_def Let_def)





subsection \<open>Grouping\<close>


lemma first_seen_set [simp]: "set (first_seen ks) = set ks"
  by (simp add: first_seen_def)

lemma first_seen_distinct [simp]: "distinct (first_seen ks)"
  by (simp add: first_seen_def)






subsection \<open>The error of a rounding sum\<close>








subsection \<open>Rounding to binary64 satisfies the model\<close>







subsection \<open>The sample records\<close>

lemma food_valid: "validates plain food_record"
  by code_simp

lemma no_amount_invalid: "\<not> validates plain no_amount_record"
  by code_simp

lemma food_amount: "amount_of plain food_record = 250"
  by code_simp


subsection \<open>C1: the totals agree up to rounding\<close>






subsection \<open>C2: failure exactly when nothing validates\<close>

text \<open>
  Claim C2. When no record of the batch validates, \<open>process_data\<close> raises its
  \<^verbatim>\<open>ValueError\<close> and returns no results at all: the one with the message "No valid data
  points found after processing" for every non-empty batch (the empty batch is refused
  before the loop, with the same exception and the message "Invalid or empty data
  received"). When at least one record validates, it returns the results, however many
  other records were skipped.
\<close>

theorem fails_iff_none_validates:
  "(\<not> (\<exists>x \<in> set all_data. validates B x) \<longrightarrow>
      (\<exists>out e. process_data B debug all_data = (out, Inl e) \<and>
                (all_data \<noteq> [] \<longrightarrow> e = No_valid_data_points))) \<and>
   ((\<exists>x \<in> set all_data. validates B x) \<longrightarrow>
      (\<exists>out r. process_data B debug all_data = (out, Inr r)))"
proof (cases "filter (validates B) all_data = []")
  case True
  then have r: "snd (process_data B debug all_data) =
      Inl (if all_data = [] then Invalid_or_empty_data else No_valid_data_points)"
    by (simp add: process_data_Inl)
  have "\<exists>out e. process_data B debug all_data = (out, Inl e) \<and>
                (all_data \<noteq> [] \<longrightarrow> e = No_valid_data_points)"
    by (intro exI[of _ "fst (process_data B debug all_data)"]
              exI[of _ "if all_data = [] then Invalid_or_empty_data else No_valid_data_points"])
       (simp add: prod_eq_iff r)
  moreover from True have "\<not> (\<exists>x \<in> set all_data. validates B x)"
    by (simp add: filter_empty_conv)
  ultimately show ?thesis by blast
next
  case False
  let ?s = "foldl (\<lambda>s item. process_item B debug item s) pd_init all_data"
  from False have r: "snd (process_data B debug all_data) =
      Inr (dates ?s, amounts ?s, categories ?s, category_totals ?s, monthly_totals ?s)"
    by (simp add: process_data_Inr)
  have "\<exists>out r. process_data B debug all_data = (out, Inr r)"
    by (intro exI[of _ "fst (process_data B debug all_data)"]
              exI[of _ "(dates ?s, amounts ?s, categories ?s, category_totals ?s, monthly_totals ?s)"])
       (simp add: prod_eq_iff r)
  moreover from False have "\<exists>x \<in> set all_data. validates B x"
    by (simp add: filter_empty_conv)
  ultimately show ?thesis by blast
qed

theorem fails_iff_none_validates_witness:
  "\<not> (\<exists>x \<in> set [no_amount_record]. validates plain x) \<and>
   (\<exists>out. process_data plain False [no_amount_record] = (out, Inl No_valid_data_points)) \<and>
   (\<exists>x \<in> set [no_amount_record, food_record]. validates plain x) \<and>
   (\<exists>out r. process_data plain False [no_amount_record, food_record] = (out, Inr r))"
  using fails_iff_none_validates[of "[no_amount_record]" plain False]
        fails_iff_none_validates[of "[no_amount_record, food_record]" plain False]
  by (simp add: food_valid no_amount_invalid)

subsection \<open>C3: accepted and skipped records\<close>



text \<open>A category that consists of a no-break space is blank to \<^verbatim>\<open>strip\<close> as well.\<close>

lemma nbsp_category:
  "category_of plain [''time'' \<mapsto> PStr ''2025-10-02'', ''category'' \<mapsto> PStr [CHR 0xA0],
                      ''amount'' \<mapsto> PNum 50] = ''Uncategorized''"
  by code_simp


subsection \<open>Sorting by descending total\<close>

lemma sum_take_drop: "sum_list (map snd (take k xs)) + sum_list (map snd (drop k xs)) = sum_list (map snd (xs::totals))"
  by (metis append_take_drop_id map_append sum_list.append)

lemma sum_sorted_desc: "sum_list (map snd (sorted_desc xs)) = sum_list (map snd xs)"
proof -
  have "mset (map snd (sorted_desc xs)) = mset (map snd xs)"
    by (simp add: sorted_desc_def)
  then show ?thesis by (metis sum_mset_sum_list)
qed

lemma other_sum: "sum_list (map snd (drop k (sorted_desc xs))) =
   sum_list (map snd xs) - sum_list (map snd (take k (sorted_desc xs)))"
  using sum_take_drop[of k "sorted_desc xs"] by (simp add: sum_sorted_desc algebra_simps)









subsection \<open>C7: the top-K reduction\<close>








subsection \<open>Sending\<close>

lemma send_message_simps [simp]:
  "user_data (send_message c r w) = user_data w"
  "table (send_message c r w) = table w"
  "calls (send_message c r w) = calls w @ [Send_message c r]"
  by (simp_all add: send_message_def remote_def)

lemma remote_simps [simp]:
  "user_data (remote c w) = user_data w"
  "table (remote c w) = table w"
  "calls (remote c w) = calls w @ [c]"
  by (simp_all add: remote_def)

subsection \<open>C4: the start command\<close>

text \<open>
  The start command does not reset the conversation state: with an expense entry pending
  for the authorized chat, the mode is still pending after \<^verbatim>\<open>/start\<close>.
\<close>

theorem start_keeps_state_counterexample:
  "user_data_get AUTHORIZED_CHAT_ID
     (user_data (snd (handle_update plain quiet
        \<lparr>update_id = 1, body = Message AUTHORIZED_CHAT_ID (Some ''/start'')\<rparr>
        (pending waiting_for_expense))))
   = Some waiting_for_expense"
  by (simp add: handle_update_def handle_start_def user_data_get_def pending_def)

text \<open>
  Claim C4, amended. In every state and for every chat, the text \<^verbatim>\<open>/start\<close> sends the
  top-level menu to that chat and changes nothing else: the conversation state of every
  identifier, a pending mode included, is as it was.
\<close>

theorem start_presents_menu:
  "handle_update B S \<lparr>update_id = n, body = Message chat_id (Some ''/start'')\<rparr> w =
     (None, w\<lparr>calls := calls w @ [Send_message chat_id Welcome_menu]\<rparr>)"
  by (simp add: handle_update_def handle_start_def send_message_def remote_def)

subsection \<open>C5: updates from other chats\<close>

text \<open>
  Claim C5 at the input that breaks it: the main loop hands \<^verbatim>\<open>/start\<close> to \<open>handle_start\<close>
  without the check that \<open>handle_text_message\<close> and \<open>handle_callback_query\<close> make, so a chat
  that is not the authorized one is sent the menu and no refusal.
\<close>

theorem start_not_checked:
  "\<not> is_authorized 1 \<and>
   handle_update plain quiet \<lparr>update_id = 1, body = Message 1 (Some ''/start'')\<rparr>
       \<lparr>user_data = Map.empty, calls = [], table = []\<rparr> =
     (None, \<lparr>user_data = Map.empty, calls = [Send_message 1 Welcome_menu], table = []\<rparr>)"
  by (simp add: handle_update_def handle_start_def send_message_def remote_def
        is_authorized_def AUTHORIZED_CHAT_ID_def)

text \<open>
  The two sibling paths do refuse: any other text gets the refusal alone, a callback is
  answered and then refused; the state and the table are untouched and no store call is made.
\<close>

lemma unauthorized_text:
  "\<not> is_authorized chat_id \<Longrightarrow> txt \<noteq> ''/start'' \<Longrightarrow>
   handle_update B S \<lparr>update_id = n, body = Message chat_id (Some txt)\<rparr> w =
     (None, w\<lparr>calls := calls w @ [Send_message chat_id Unauthorized_access]\<rparr>)"
  by (simp add: handle_update_def handle_text_message_def send_message_def remote_def)

lemma unauthorized_callback:
  "\<not> is_authorized chat_id \<Longrightarrow>
   handle_update B S \<lparr>update_id = n, body = Callback_query q chat_id data\<rparr> w =
     (None, w\<lparr>calls := calls w @ [Answer_callback_query q, Send_message chat_id Unauthorized_access]\<rparr>)"
  by (simp add: handle_update_def handle_callback_query_def send_message_def remote_def
        answer_callback_query_def)


subsection \<open>The two input handlers\<close>

lemma store_expense_simps [simp]:
  "user_data (store_expense B S c a n w) = user_data w"
  "calls (store_expense B S c a n w) =
     calls w @ (if c = [] \<or> a = 0 then [] else [Store_insert (expense_data B S c a n)])"
  "table (store_expense B S c a n w) =
     table w @ (if c \<noteq> [] \<and> a \<noteq> 0 \<and> insert_execute S (expense_data B S c a n) = Inserted
                then [expense_data B S c a n] else [])"
  by (simp_all add: store_expense_def Let_def split: insert_outcome.split)

lemma fetch_monthly_total_simps [simp]:
  "user_data (snd (fetch_monthly_total S y m w)) = user_data w"
  "calls (snd (fetch_monthly_total S y m w)) = calls w @ [Store_rpc_monthly_total y m]"
  "table (snd (fetch_monthly_total S y m w)) = table w"
  by (simp_all add: fetch_monthly_total_def split: sum.split)

lemma handle_expense_input_rejected:
  "\<not> expense_parses B txt \<Longrightarrow>
   \<exists>r. handle_expense_input B S chat_id txt w = w\<lparr>calls := calls w @ [Send_message chat_id r]\<rparr>"
  by (auto simp: expense_parses_def handle_expense_input_def Let_def send_message_def remote_def
           split: sum.split)

lemma handle_expense_input_accepted:
  assumes "2 \<le> length (py_split2 B txt)"
      and "py_float B (PStr (py_split2 B txt ! 1)) = Inr amount"
  shows "handle_expense_input B S chat_id txt w =
     (let parts = py_split2 B txt;
          note = (if length parts > 2 then parts ! 2 else []);
          w2 = send_message chat_id (Expense_added (parts ! 0) amount note)
                 (store_expense B S (parts ! 0) amount note w)
      in if user_data w chat_id \<noteq> None then w2\<lparr>user_data := (user_data w)(chat_id := None)\<rparr>
         else send_message chat_id (Error_reply KeyError) w2)"
  using assms
  by (simp add: handle_expense_input_def Let_def user_data_del_def)

lemma handle_month_input_rejected:
  "\<not> month_query_ok B txt \<Longrightarrow>
   \<exists>r new. handle_month_input B S chat_id txt w =
       w\<lparr>calls := calls w @ new @ [Send_message chat_id r]\<rparr> \<and> filter is_send new = []"
proof -
  assume n: "\<not> month_query_ok B txt"
  have e: "w\<lparr>calls := calls w @ [Send_message chat_id r]\<rparr> =
           w\<lparr>calls := calls w @ [] @ [Send_message chat_id r]\<rparr>" for r
    by simp
  show ?thesis
  proof (cases "length (py_split B txt) = 2")
    case False
    then have "handle_month_input B S chat_id txt w =
        w\<lparr>calls := calls w @ [] @ [Send_message chat_id Invalid_format_month]\<rparr>"
      by (simp add: handle_month_input_def Let_def send_message_def remote_def)
    then show ?thesis by (metis filter.simps(1))
  next
    case len: True
    show ?thesis
    proof (cases "py_int B (py_split B txt ! 0)")
      case (Inl e)
      with len have "handle_month_input B S chat_id txt w =
          w\<lparr>calls := calls w @ [] @ [Send_message chat_id
              (if e = ValueError then Invalid_year_or_month else Error_reply e)]\<rparr>"
        by (simp add: handle_month_input_def Let_def send_message_def remote_def)
      then show ?thesis by (metis filter.simps(1))
    next
      case y: (Inr y)
      show ?thesis
      proof (cases "py_int B (py_split B txt ! 1)")
        case (Inl e)
        with len y have "handle_month_input B S chat_id txt w =
            w\<lparr>calls := calls w @ [] @ [Send_message chat_id
                (if e = ValueError then Invalid_year_or_month else Error_reply e)]\<rparr>"
          by (simp add: handle_month_input_def Let_def send_message_def remote_def)
        then show ?thesis by (metis filter.simps(1))
      next
        case m: (Inr m)
        show ?thesis
        proof (cases "1 \<le> m \<and> m \<le> 12")
          case False
          with len y m have "handle_month_input B S chat_id txt w =
              w\<lparr>calls := calls w @ [] @ [Send_message chat_id Month_range]\<rparr>"
            by (simp add: handle_month_input_def Let_def send_message_def remote_def)
          then show ?thesis by (metis filter.simps(1))
        next
          case rng: True
          with n len y m obtain e where d: "datetime_first y m = Inl e"
            by (cases "datetime_first y m") (auto simp: month_query_ok_def)
          with len y m rng have "handle_month_input B S chat_id txt w =
              w\<lparr>calls := calls w @ [Store_rpc_monthly_total y m] @ [Send_message chat_id
                  (if e = ValueError then Invalid_year_or_month else Error_reply e)]\<rparr>"
            by (simp add: handle_month_input_def Let_def send_message_def remote_def
                  fetch_monthly_total_def split: sum.split prod.split)
          moreover have "filter is_send [Store_rpc_monthly_total y m] = []" by simp
          ultimately show ?thesis by blast
        qed
      qed
    qed
  qed
qed

lemma handle_month_input_accepted:
  assumes "month_query_ok B txt" "user_data w chat_id \<noteq> None"
  shows "\<exists>y m d t. handle_month_input B S chat_id txt w =
     w\<lparr>calls := calls w @ [Store_rpc_monthly_total y m] @ [Send_message chat_id (Month_total d t)],
       user_data := (user_data w)(chat_id := None)\<rparr>"
proof -
  from assms(1) obtain y m where
    f0: "length (py_split B txt) = 2" "py_int B (py_split B txt ! 0) = Inr y" "py_int B (py_split B txt ! 1) = Inr m"
       "1 \<le> m" "m \<le> 12" "\<not> isl (datetime_first y m)"
    by (auto simp: month_query_ok_def split: sum.splits)
  then obtain d where fd: "datetime_first y m = Inr d"
    by (cases "datetime_first y m") auto
  note f = f0(1-5) fd
  obtain t w1 where ft: "fetch_monthly_total S y m w = (t, w1)" by (cases "fetch_monthly_total S y m w")
  then have w1: "w1 = w\<lparr>calls := calls w @ [Store_rpc_monthly_total y m]\<rparr>"
    by (auto simp: fetch_monthly_total_def remote_def split: sum.splits)
  have "handle_month_input B S chat_id txt w =
     w\<lparr>calls := calls w @ [Store_rpc_monthly_total y m] @
          [Send_message chat_id (Month_total d (case t of None \<Rightarrow> 0 | Some t \<Rightarrow> t))],
       user_data := (user_data w)(chat_id := None)\<rparr>"
    using f ft w1 assms(2)
    by (simp add: handle_month_input_def Let_def send_message_def remote_def user_data_del_def)
  then show ?thesis by blast
qed


text \<open>The inputs of the specification's scenarios B and C.\<close>

lemma split_2025_13: "py_split plain ''2025 13'' = [''2025'', ''13'']"
  by code_simp

lemma month_query_2025_13: "\<not> month_query_ok plain ''2025 13''"
  by code_simp

lemma split_food_lunch: "py_split2 plain ''Food 250 Lunch'' = [''Food'', ''250'', ''Lunch'']"
  by code_simp

lemma float_250: "py_float plain (PStr ''250'') = Inr 250"
  by code_simp

lemma split_food_zero: "py_split2 plain ''Food 0 Lunch'' = [''Food'', ''0'', ''Lunch'']"
  by code_simp

lemma float_0: "py_float plain (PStr ''0'') = Inr 0"
  by code_simp

subsection \<open>C8: the conversation state store\<close>






subsection \<open>C6: free text in a pending mode\<close>

text \<open>
  Claim C6. For an identifier with a pending mode and any text, each of the two input
  handlers sends exactly one message, as the last of its calls. The expense handler clears
  the entry when the text has at least two parts with a second part that \<^verbatim>\<open>float\<close>
  accepts, and leaves the store unchanged otherwise. The month handler clears the entry
  when the text has exactly two parts that \<^verbatim>\<open>int\<close> accepts, the month is in 1..12 and
  \<^verbatim>\<open>datetime(year, month, 1)\<close> exists (the year is in 1..9999), and leaves the store
  unchanged otherwise.
\<close>

theorem pending_input_outcome:
  assumes "user_data w chat_id \<noteq> None"
  shows "(\<exists>new r. calls (handle_expense_input B S chat_id txt w) = calls w @ new @ [Send_message chat_id r] \<and>
                 filter is_send new = [] \<and>
                 user_data (handle_expense_input B S chat_id txt w) =
                   (if expense_parses B txt then (user_data w)(chat_id := None) else user_data w)) \<and>
         (\<exists>new r. calls (handle_month_input B S chat_id txt w) = calls w @ new @ [Send_message chat_id r] \<and>
                 filter is_send new = [] \<and>
                 user_data (handle_month_input B S chat_id txt w) =
                   (if month_query_ok B txt then (user_data w)(chat_id := None) else user_data w))"
proof
  show "\<exists>new r. calls (handle_expense_input B S chat_id txt w) = calls w @ new @ [Send_message chat_id r] \<and>
                 filter is_send new = [] \<and>
                 user_data (handle_expense_input B S chat_id txt w) =
                   (if expense_parses B txt then (user_data w)(chat_id := None) else user_data w)"
  proof (cases "expense_parses B txt")
    case False
    from handle_expense_input_rejected[OF False, of S chat_id w] obtain r where
      "handle_expense_input B S chat_id txt w = w\<lparr>calls := calls w @ [] @ [Send_message chat_id r]\<rparr>"
      by auto
    then have "calls (handle_expense_input B S chat_id txt w) = calls w @ [] @ [Send_message chat_id r]"
      "user_data (handle_expense_input B S chat_id txt w) = user_data w"
      by simp_all
    with False show ?thesis
      by - (rule exI[of _ "[]"], rule exI[of _ r], simp)
  next
    case True
    then obtain a where p: "2 \<le> length (py_split2 B txt)"
        "py_float B (PStr (py_split2 B txt ! 1)) = Inr a"
      by (cases "py_float B (PStr (py_split2 B txt ! 1))") (auto simp: expense_parses_def)
    let ?c = "py_split2 B txt ! 0"
    let ?n = "if length (py_split2 B txt) > 2 then py_split2 B txt ! 2 else []"
    have c: "calls (handle_expense_input B S chat_id txt w) =
        calls w @ (if ?c = [] \<or> a = 0 then [] else [Store_insert (expense_data B S ?c a ?n)]) @
          [Send_message chat_id (Expense_added ?c a ?n)]"
      and u: "user_data (handle_expense_input B S chat_id txt w) = (user_data w)(chat_id := None)"
      using assms by (simp_all add: handle_expense_input_accepted[OF p] Let_def)
    have "filter is_send (if ?c = [] \<or> a = 0 then [] else [Store_insert (expense_data B S ?c a ?n)]) = []"
      by simp
    with c u True show ?thesis
      by - (rule exI[of _ "if ?c = [] \<or> a = 0 then [] else [Store_insert (expense_data B S ?c a ?n)]"],
            rule exI[of _ "Expense_added ?c a ?n"], simp)
  qed
next
  show "\<exists>new r. calls (handle_month_input B S chat_id txt w) = calls w @ new @ [Send_message chat_id r] \<and>
                 filter is_send new = [] \<and>
                 user_data (handle_month_input B S chat_id txt w) =
                   (if month_query_ok B txt then (user_data w)(chat_id := None) else user_data w)"
  proof (cases "month_query_ok B txt")
    case False
    from handle_month_input_rejected[OF False, of S chat_id w] obtain r new where
      h: "handle_month_input B S chat_id txt w = w\<lparr>calls := calls w @ new @ [Send_message chat_id r]\<rparr>"
         "filter is_send new = []"
      by auto
    from h(1) have "calls (handle_month_input B S chat_id txt w) = calls w @ new @ [Send_message chat_id r]"
      "user_data (handle_month_input B S chat_id txt w) = user_data w"
      by simp_all
    with False h(2) show ?thesis
      by - (rule exI[of _ new], rule exI[of _ r], simp)
  next
    case True
    from handle_month_input_accepted[OF True assms, of S] obtain y m d t where
      h: "handle_month_input B S chat_id txt w =
         w\<lparr>calls := calls w @ [Store_rpc_monthly_total y m] @ [Send_message chat_id (Month_total d t)],
           user_data := (user_data w)(chat_id := None)\<rparr>"
      by auto
    then have "calls (handle_month_input B S chat_id txt w) =
         calls w @ [Store_rpc_monthly_total y m] @ [Send_message chat_id (Month_total d t)]"
      "user_data (handle_month_input B S chat_id txt w) = (user_data w)(chat_id := None)"
      by simp_all
    moreover have "filter is_send [Store_rpc_monthly_total y m] = []" by simp
    ultimately show ?thesis using True
      by - (rule exI[of _ "[Store_rpc_monthly_total y m]"], rule exI[of _ "Month_total d t"], simp)
  qed
qed


lemma split_nbsp: "py_split2 plain (''Food'' @ [CHR 0xA0] @ ''250'') = [''Food'', ''250'']"
  by code_simp

theorem pending_input_outcome_witness:
  "user_data (pending waiting_for_month) AUTHORIZED_CHAT_ID \<noteq> None \<and>
   \<not> month_query_ok plain ''2025 13'' \<and>
   user_data (handle_month_input plain quiet AUTHORIZED_CHAT_ID ''2025 13'' (pending waiting_for_month)) =
     user_data (pending waiting_for_month) \<and>
   expense_parses plain ''Food 250 Lunch'' \<and>
   user_data (handle_expense_input plain quiet AUTHORIZED_CHAT_ID ''Food 250 Lunch''
                (pending waiting_for_month)) AUTHORIZED_CHAT_ID = None \<and>
   expense_parses plain (''Food'' @ [CHR 0xA0] @ ''250'') \<and>
   user_data (handle_expense_input plain quiet AUTHORIZED_CHAT_ID (''Food'' @ [CHR 0xA0] @ ''250'')
                (pending waiting_for_month)) AUTHORIZED_CHAT_ID = None"
proof -
  have h: "user_data (pending waiting_for_month) AUTHORIZED_CHAT_ID \<noteq> None"
    by (simp add: pending_def)
  have e: "expense_parses plain ''Food 250 Lunch''"
    by (simp add: expense_parses_def split_food_lunch float_250)
  have e': "expense_parses plain (''Food'' @ [CHR 0xA0] @ ''250'')"
    by (simp only: expense_parses_def split_nbsp) (simp add: float_250)
  from pending_input_outcome[OF h, of plain quiet "''2025 13''"]
       pending_input_outcome[OF h, of plain quiet "''Food 250 Lunch''"]
       pending_input_outcome[OF h, of plain quiet "''Food'' @ [CHR 0xA0] @ ''250''"]
  show ?thesis using h e e' month_query_2025_13 by auto
qed

subsection \<open>C10: the confirmation does not depend on the insert\<close>

text \<open>
  Claim C10. For every text with at least two parts whose second part \<^verbatim>\<open>float\<close> accepts,
  \<open>handle_expense_input\<close> sends the "Expense Added" message with the parsed category, amount
  and note, and afterwards the identifier has no entry; with a pending entry that message
  is the only one sent. When the amount is zero (or the category empty) \<open>store_expense\<close>
  changes nothing and calls the store not at all; when the insert raises, the table is
  unchanged; only a non-zero amount with an insert that succeeds adds the row.
\<close>

theorem expense_added_regardless:
  assumes "2 \<le> length (py_split2 B txt)"
      and "py_float B (PStr (py_split2 B txt ! 1)) = Inr amount"
  shows "let w' = handle_expense_input B S chat_id txt w;
             new = drop (length (calls w)) (calls w');
             category = py_split2 B txt ! 0;
             note = (if 2 < length (py_split2 B txt) then py_split2 B txt ! 2 else []);
             data = expense_data B S category amount note
         in Send_message chat_id (Expense_added category amount note) \<in> set new \<and>
            user_data w' chat_id = None \<and>
            (user_data w chat_id \<noteq> None \<longrightarrow>
               filter is_send new = [Send_message chat_id (Expense_added category amount note)] \<and>
               user_data w' = (user_data w)(chat_id := None)) \<and>
            (amount = 0 \<or> category = [] \<longrightarrow>
               table w' = table w \<and> filter is_store_call new = [] \<and>
               store_expense B S category amount note w = w) \<and>
            (\<forall>e. insert_execute S data = Insert_raises e \<longrightarrow> table w' = table w) \<and>
            (amount \<noteq> 0 \<and> category \<noteq> [] \<and> insert_execute S data = Inserted \<longrightarrow>
               table w' = table w @ [data])"
proof -
  let ?c = "py_split2 B txt ! 0"
  let ?n = "if 2 < length (py_split2 B txt) then py_split2 B txt ! 2 else []"
  let ?d = "expense_data B S ?c amount ?n"
  let ?ins = "if ?c = [] \<or> amount = 0 then [] else [Store_insert ?d]"
  let ?w' = "handle_expense_input B S chat_id txt w"
  have "calls ?w' = calls w @ (?ins @ [Send_message chat_id (Expense_added ?c amount ?n)] @
          (if user_data w chat_id \<noteq> None then [] else [Send_message chat_id (Error_reply KeyError)]))"
    by (simp add: handle_expense_input_accepted[OF assms] Let_def)
  then have new: "drop (length (calls w)) (calls ?w') =
      ?ins @ [Send_message chat_id (Expense_added ?c amount ?n)] @
          (if user_data w chat_id \<noteq> None then [] else [Send_message chat_id (Error_reply KeyError)])"
    by simp
  have ud: "user_data ?w' =
      (if user_data w chat_id \<noteq> None then (user_data w)(chat_id := None) else user_data w)"
    by (simp add: handle_expense_input_accepted[OF assms] Let_def)
  have tb: "table ?w' = table w @
      (if ?c \<noteq> [] \<and> amount \<noteq> 0 \<and> insert_execute S ?d = Inserted then [?d] else [])"
    by (simp add: handle_expense_input_accepted[OF assms] Let_def)
  have st: "amount = 0 \<or> ?c = [] \<Longrightarrow> store_expense B S ?c amount ?n w = w"
    by (auto simp: store_expense_def)
  show ?thesis
    unfolding Let_def new ud tb using st by auto
qed

theorem expense_added_regardless_witness:
  "2 \<le> length (py_split2 plain ''Food 0 Lunch'') \<and>
   py_float plain (PStr (py_split2 plain ''Food 0 Lunch'' ! 1)) = Inr 0 \<and>
   Send_message AUTHORIZED_CHAT_ID (Expense_added ''Food'' 0 ''Lunch'')
     \<in> set (calls (handle_expense_input plain quiet AUTHORIZED_CHAT_ID ''Food 0 Lunch''
                     (pending waiting_for_expense))) \<and>
   user_data (handle_expense_input plain quiet AUTHORIZED_CHAT_ID ''Food 0 Lunch''
                (pending waiting_for_expense)) AUTHORIZED_CHAT_ID = None \<and>
   table (handle_expense_input plain quiet AUTHORIZED_CHAT_ID ''Food 0 Lunch''
            (pending waiting_for_expense)) = [] \<and>
   insert_execute failing (expense_data plain failing ''Food'' 250 ''Lunch'') = Insert_raises OverflowError \<and>
   Send_message AUTHORIZED_CHAT_ID (Expense_added ''Food'' 250 ''Lunch'')
     \<in> set (calls (handle_expense_input plain failing AUTHORIZED_CHAT_ID ''Food 250 Lunch''
                     (pending waiting_for_expense))) \<and>
   table (handle_expense_input plain failing AUTHORIZED_CHAT_ID ''Food 250 Lunch''
            (pending waiting_for_expense)) = []"
proof -
  have a: "2 \<le> length (py_split2 plain ''Food 0 Lunch'')"
          "py_float plain (PStr (py_split2 plain ''Food 0 Lunch'' ! 1)) = Inr 0"
    by (simp_all add: split_food_zero float_0)
  have b: "2 \<le> length (py_split2 plain ''Food 250 Lunch'')"
          "py_float plain (PStr (py_split2 plain ''Food 250 Lunch'' ! 1)) = Inr 250"
    by (simp_all add: split_food_lunch float_250)
  have f: "insert_execute failing (expense_data plain failing ''Food'' 250 ''Lunch'') = Insert_raises OverflowError"
    by (simp add: failing_def)
  from expense_added_regardless[OF a, of quiet AUTHORIZED_CHAT_ID "pending waiting_for_expense"]
       expense_added_regardless[OF b, of failing AUTHORIZED_CHAT_ID "pending waiting_for_expense"]
  show ?thesis using a b f
    by (auto simp: Let_def split_food_zero split_food_lunch pending_def dest: in_set_dropD)
qed


subsection \<open>The main loop keeps its invariant\<close>

lemma strict_sorted_le_last:
  "sorted_wrt (<) xs \<Longrightarrow> x \<in> set xs \<Longrightarrow> x \<le> last (xs :: int list)"
  by (induction xs) (auto simp: less_imp_le)

lemma answers_above_handled:
  assumes "cursor_inv l" "answers (last_update_id l) us" "u \<in> set us" "h \<in> set (handled l)"
  shows "h < update_id u"
proof -
  from assms(4) have ne: "handled l \<noteq> []" by auto
  with assms(1) have c: "last_update_id l = Some (last (handled l) + 1)"
    by (simp add: cursor_inv_def)
  with assms(2,3) have "last (handled l) + 1 \<le> update_id u"
    by (auto simp: answers_def list_all_iff)
  moreover from assms(1,4) have "h \<le> last (handled l)"
    by (simp add: cursor_inv_def strict_sorted_le_last)
  ultimately show ?thesis by simp
qed

lemma enter_update:
  assumes "cursor_inv l" "answers (last_update_id l) (u # us)"
  shows "cursor_inv (l\<lparr>last_update_id := Some (update_id u + 1), world_of := w',
                        handled := handled l @ [update_id u]\<rparr>)"
    and "answers (Some (update_id u + 1)) us"
proof -
  have "\<forall>h \<in> set (handled l). h < update_id u"
    using answers_above_handled[OF assms(1) assms(2)] by simp
  with assms(1) show "cursor_inv (l\<lparr>last_update_id := Some (update_id u + 1), world_of := w',
                        handled := handled l @ [update_id u]\<rparr>)"
    by (simp add: cursor_inv_def sorted_wrt_append)
  from assms(2) have "sorted_wrt (<) (map update_id (u # us))" by (simp add: answers_def)
  then show "answers (Some (update_id u + 1)) us"
    by (auto simp: answers_def list_all_iff)
qed

lemma for_updates_inv:
  "for_updates B us l r l' \<Longrightarrow> cursor_inv l \<Longrightarrow> answers (last_update_id l) us \<Longrightarrow>
   cursor_inv l' \<and>
   (\<exists>k. handled l' = handled l @ take k (map update_id us) \<and>
        (us \<noteq> [] \<longrightarrow> 0 < k) \<and> (r = None \<longrightarrow> length us \<le> k))"
proof (induction rule: for_updates.induct)
  case (no_more l)
  then show ?case by simp
next
  case (next_update S u l w' us r l')
  let ?l1 = "l\<lparr>last_update_id := Some (update_id u + 1), world_of := w',
                handled := handled l @ [update_id u]\<rparr>"
  have i: "cursor_inv ?l1" and a: "answers (last_update_id ?l1) us"
    using enter_update(1)[OF next_update.prems, of w'] enter_update(2)[OF next_update.prems]
    by simp_all
  from next_update.IH[OF i a] obtain k where
    "cursor_inv l'" "handled l' = handled ?l1 @ take k (map update_id us)"
    "r = None \<longrightarrow> length us \<le> k"
    by blast
  then have "cursor_inv l' \<and> handled l' = handled l @ take (Suc k) (map update_id (u # us)) \<and>
             (u # us \<noteq> [] \<longrightarrow> 0 < Suc k) \<and> (r = None \<longrightarrow> length (u # us) \<le> Suc k)"
    by simp
  then show ?case by blast
next
  case (raised S u l e w' us)
  have "cursor_inv (l\<lparr>last_update_id := Some (update_id u + 1), world_of := w',
                      handled := handled l @ [update_id u]\<rparr>)"
    using enter_update(1)[OF raised.prems] by simp
  moreover have "handled (l\<lparr>last_update_id := Some (update_id u + 1), world_of := w',
                      handled := handled l @ [update_id u]\<rparr>) =
                 handled l @ take (Suc 0) (map update_id (u # us)) \<and>
                 (u # us \<noteq> [] \<longrightarrow> 0 < Suc 0) \<and> (Some e = None \<longrightarrow> length (u # us) \<le> Suc 0)"
    by simp
  ultimately show ?case by blast
next
  case (interrupted u us l e w')
  have "cursor_inv (l\<lparr>last_update_id := Some (update_id u + 1), world_of := w',
                      handled := handled l @ [update_id u]\<rparr>)"
    using enter_update(1)[OF interrupted.prems] by simp
  moreover have "handled (l\<lparr>last_update_id := Some (update_id u + 1), world_of := w',
                      handled := handled l @ [update_id u]\<rparr>) =
                 handled l @ take (Suc 0) (map update_id (u # us)) \<and>
                 (u # us \<noteq> [] \<longrightarrow> 0 < Suc 0) \<and> (Some e = None \<longrightarrow> length (u # us) \<le> Suc 0)"
    by simp
  ultimately show ?case by blast
qed

lemma step_inv: "step B l t l' \<Longrightarrow> cursor_inv l \<Longrightarrow> cursor_inv l'"
proof (induction rule: step.induct)
  case (batch l us r l')
  from for_updates_inv[OF batch(2) batch(3) batch(1)] show ?case by blast
qed simp_all

lemma run_inv: "run B l ts l' \<Longrightarrow> cursor_inv l \<Longrightarrow> cursor_inv l'"
  by (induction rule: run.induct) (auto intro: step_inv)

lemma cursor_inv_init: "cursor_inv (loop_init w0)"
  by (simp add: cursor_inv_def loop_init_def)

lemma batch_turn:
  assumes "step B l (Batch us r) l'"
  shows "answers (last_update_id l) us \<and> for_updates B us l r l'"
  using assms by (cases rule: step.cases) auto

lemma idle_turn:
  "step B l (Fetch_raised e) l' \<Longrightarrow> l' = l"
  "step B l Not_ok l' \<Longrightarrow> l' = l"
  by (auto elim: step.cases)

subsection \<open>C9: the cursor discipline\<close>

text \<open>
  The fetch does not ask for the updates strictly after the cursor: the cursor is the
  last identifier plus one and is sent as the offset, the identifier of the first update
  to return. In the run below the cursor is 7 after the updates 5 and 6, the next batch
  holds the update 7, and it is entered. (Were the update at the cursor left out, the one
  that follows the last processed update would never be processed.)
\<close>

theorem at_cursor_counterexample:
  "run plain (loop_init (pending waiting_for_month))
      [Batch [\<lparr>update_id = 5, body = Other_update\<rparr>, \<lparr>update_id = 6, body = Other_update\<rparr>] None]
      \<lparr>last_update_id = Some 7, world_of = pending waiting_for_month, handled = [5, 6]\<rparr> \<and>
   step plain
      \<lparr>last_update_id = Some 7, world_of = pending waiting_for_month, handled = [5, 6]\<rparr>
      (Batch [\<lparr>update_id = 7, body = Other_update\<rparr>] None)
      \<lparr>last_update_id = Some 8, world_of = pending waiting_for_month, handled = [5, 6, 7]\<rparr> \<and>
   \<not> (7 < update_id \<lparr>update_id = 7, body = Other_update\<rparr>)"
proof -
  let ?w = "pending waiting_for_month"
  let ?u5 = "\<lparr>update_id = 5, body = Other_update\<rparr>"
  let ?u6 = "\<lparr>update_id = 6, body = Other_update\<rparr>"
  let ?u7 = "\<lparr>update_id = 7, body = Other_update\<rparr>"
  let ?l1 = "\<lparr>last_update_id = Some 7, world_of = ?w, handled = [5, 6]\<rparr>"
  let ?l2 = "\<lparr>last_update_id = Some 8, world_of = ?w, handled = [5, 6, 7]\<rparr>"
  have h5: "handle_update plain quiet ?u5 ?w = (None, ?w)"
    and h6: "handle_update plain quiet ?u6 ?w = (None, ?w)"
    and h7: "handle_update plain quiet ?u7 ?w = (None, ?w)"
    by (simp_all add: handle_update_def)
  have f1: "for_updates plain [?u5, ?u6] (loop_init ?w) None ?l1"
    using for_updates.next_update[OF _ for_updates.next_update[OF _ for_updates.no_more],
        of plain quiet ?u5 "loop_init ?w" ?w quiet ?u6 ?w] h5 h6
    by (simp add: loop_init_def)
  have a1: "answers (last_update_id (loop_init ?w)) [?u5, ?u6]"
    by (simp add: answers_def loop_init_def)
  have r: "run plain (loop_init ?w) [Batch [?u5, ?u6] None] ?l1"
    using run.run_turn[OF run.run_start step.batch[OF a1 f1]] by simp
  have f2: "for_updates plain [?u7] ?l1 None ?l2"
    using for_updates.next_update[OF _ for_updates.no_more, of plain quiet ?u7 ?l1 ?w] h7
    by simp
  have a2: "answers (last_update_id ?l1) [?u7]"
    by (simp add: answers_def)
  from r step.batch[OF a2 f2] show ?thesis by simp
qed

text \<open>
  Claim C9, amended. In every run of the main loop from its start, for each turn: a turn
  in which the fetch raises or its result is not ok changes nothing. In a turn with a
  batch, every update of the batch has an identifier at or after the cursor (when the
  cursor is set), hence strictly after every update entered before; the updates entered
  in the turn are a prefix of this batch in its order, not empty unless the batch is, and
  the whole batch when no exception ended the for loop; afterwards the cursor is the
  identifier of the last update entered plus one (and unset while none was entered), the
  identifiers entered ascend strictly, so none is entered twice, and every update that the
  transport may answer to the next fetch has an identifier above all of them. The fetch
  passes the cursor as offset, and the transport answers in ascending order with nothing
  below the offset.
\<close>

theorem cursor_discipline:
  assumes "run B (loop_init w0) ts l" and "step B l t l'"
  shows "(case t of
            Batch us r \<Rightarrow>
              (\<forall>u \<in> set us. (\<forall>c. last_update_id l = Some c \<longrightarrow> c \<le> update_id u) \<and>
                             (\<forall>h \<in> set (handled l). h < update_id u)) \<and>
              (\<exists>k. handled l' = handled l @ take k (map update_id us) \<and>
                   (us \<noteq> [] \<longrightarrow> 0 < k) \<and>
                   (r = None \<longrightarrow> handled l' = handled l @ map update_id us))
          | _ \<Rightarrow> l' = l) \<and>
         last_update_id l' = (if handled l' = [] then None else Some (last (handled l') + 1)) \<and>
         sorted_wrt (<) (handled l') \<and> distinct (handled l') \<and>
         (\<forall>us. answers (last_update_id l') us \<longrightarrow>
               (\<forall>u \<in> set us. \<forall>h \<in> set (handled l'). h < update_id u))"
proof -
  have i: "cursor_inv l" using run_inv[OF assms(1) cursor_inv_init] .
  have i': "cursor_inv l'" using step_inv[OF assms(2) i] .
  have t: "case t of
            Batch us r \<Rightarrow>
              (\<forall>u \<in> set us. (\<forall>c. last_update_id l = Some c \<longrightarrow> c \<le> update_id u) \<and>
                             (\<forall>h \<in> set (handled l). h < update_id u)) \<and>
              (\<exists>k. handled l' = handled l @ take k (map update_id us) \<and>
                   (us \<noteq> [] \<longrightarrow> 0 < k) \<and>
                   (r = None \<longrightarrow> handled l' = handled l @ map update_id us))
          | _ \<Rightarrow> l' = l"
  proof (cases t)
    case (Fetch_raised e)
    with assms(2) show ?thesis by (simp add: idle_turn)
  next
    case Not_ok
    with assms(2) show ?thesis by (simp add: idle_turn)
  next
    case (Batch us r)
    with assms(2) have a: "answers (last_update_id l) us" and f: "for_updates B us l r l'"
      using batch_turn by blast+
    have 1: "\<forall>u \<in> set us. (\<forall>c. last_update_id l = Some c \<longrightarrow> c \<le> update_id u) \<and>
                             (\<forall>h \<in> set (handled l). h < update_id u)"
      using a answers_above_handled[OF i a] by (auto simp: answers_def list_all_iff)
    from for_updates_inv[OF f i a] obtain k where
      k: "handled l' = handled l @ take k (map update_id us)" "us \<noteq> [] \<longrightarrow> 0 < k"
         "r = None \<longrightarrow> length us \<le> k"
      by blast
    from k(1,3) have "r = None \<longrightarrow> handled l' = handled l @ map update_id us" by simp
    with k(1,2) 1 Batch show ?thesis by auto
  qed
  from i' have c: "last_update_id l' = (if handled l' = [] then None else Some (last (handled l') + 1))"
    and s: "sorted_wrt (<) (handled l')"
    by (simp_all add: cursor_inv_def)
  from s have d: "distinct (handled l')" by (simp add: strict_sorted_iff)
  have n: "\<forall>us. answers (last_update_id l') us \<longrightarrow>
               (\<forall>u \<in> set us. \<forall>h \<in> set (handled l'). h < update_id u)"
    using answers_above_handled[OF i'] by blast
  from t c s d n show ?thesis by blast
qed

theorem cursor_discipline_witness:
  "run plain (loop_init (pending waiting_for_month))
      [Batch [\<lparr>update_id = 5, body = Other_update\<rparr>,
              \<lparr>update_id = 6, body = Message 1 (Some ''/start'')\<rparr>] None]
      \<lparr>last_update_id = Some 7,
        world_of = (pending waiting_for_month)\<lparr>calls := [Send_message 1 Welcome_menu]\<rparr>,
        handled = [5, 6]\<rparr> \<and>
   step plain
      \<lparr>last_update_id = Some 7,
        world_of = (pending waiting_for_month)\<lparr>calls := [Send_message 1 Welcome_menu]\<rparr>,
        handled = [5, 6]\<rparr>
      (Batch [\<lparr>update_id = 9, body = Message 1 None\<rparr>] None)
      \<lparr>last_update_id = Some 10,
        world_of = (pending waiting_for_month)\<lparr>calls := [Send_message 1 Welcome_menu]\<rparr>,
        handled = [5, 6, 9]\<rparr> \<and>
   [5, 6, 9] = [5, 6] @ map update_id [\<lparr>update_id = 9, body = Message 1 None\<rparr>] \<and>
   Some (10 :: int) = Some (last [5, 6, 9] + 1) \<and>
   distinct [5, 6, 9 :: int]"
proof -
  let ?w0 = "pending waiting_for_month"
  let ?w1 = "?w0\<lparr>calls := [Send_message 1 Welcome_menu]\<rparr>"
  let ?u5 = "\<lparr>update_id = 5, body = Other_update\<rparr>"
  let ?u6 = "\<lparr>update_id = 6, body = Message 1 (Some ''/start'')\<rparr>"
  let ?u9 = "\<lparr>update_id = 9, body = Message 1 None\<rparr>"
  let ?l1 = "\<lparr>last_update_id = Some 7, world_of = ?w1, handled = [5, 6]\<rparr>"
  let ?l2 = "\<lparr>last_update_id = Some 10, world_of = ?w1, handled = [5, 6, 9]\<rparr>"
  have h5: "handle_update plain quiet ?u5 ?w0 = (None, ?w0)"
    by (simp add: handle_update_def)
  have h6: "handle_update plain quiet ?u6 ?w0 = (None, ?w1)"
    by (simp add: handle_update_def handle_start_def send_message_def remote_def pending_def)
  have h9: "handle_update plain quiet ?u9 ?w1 = (None, ?w1)"
    by (simp add: handle_update_def)
  have f1: "for_updates plain [?u5, ?u6] (loop_init ?w0) None ?l1"
    using for_updates.next_update[OF _ for_updates.next_update[OF _ for_updates.no_more],
        of plain quiet ?u5 "loop_init ?w0" ?w0 quiet ?u6 ?w1] h5 h6
    by (simp add: loop_init_def)
  have a1: "answers (last_update_id (loop_init ?w0)) [?u5, ?u6]"
    by (simp add: answers_def loop_init_def)
  have r: "run plain (loop_init ?w0) [Batch [?u5, ?u6] None] ?l1"
    using run.run_turn[OF run.run_start step.batch[OF a1 f1]] by simp
  have f2: "for_updates plain [?u9] ?l1 None ?l2"
    using for_updates.next_update[OF _ for_updates.no_more, of plain quiet ?u9 ?l1 ?w1] h9
    by simp
  have a2: "answers (last_update_id ?l1) [?u9]"
    by (simp add: answers_def)
  have s2: "step plain ?l1 (Batch [?u9] None) ?l2"
    using step.batch[OF a2 f2] .
  from cursor_discipline[OF r s2] show ?thesis using r s2 by simp
qed

end
